theory Spec2Isabelle
  imports Main
begin

section \<open>Status data model\<close>

text \<open>
  Modelled from the spec: the status types of package \<open>kcv1alpha1\<close> (their declarations are
  not among the sources).  Section 3 of the specification gives every stage the fields
  \<open>ExitCode\<close>, \<open>StartedAt\<close>, \<open>UpdatedAt\<close>, \<open>Stdout\<close>, \<open>Stderr\<close>, and gives the deploy stage
  \<open>Finished\<close> and \<open>Error\<close> in addition.  The stage fields of \<open>AppStatus\<close> are pointers in
  the code (they are compared with \<open>nil\<close>), hence options here.

  A \<open>Time\<close> is an instant in nanoseconds since the Unix epoch: \<open>Unix\<close> is Go's
  \<open>Time.Unix()\<close> (whole seconds, rounded down), \<open>After\<close> and \<open>Equal\<close> compare instants.
\<close>

type_synonym Time = int

definition Unix :: "Time \<Rightarrow> int" where
  "Unix t = t div 1000000000"

definition After :: "Time \<Rightarrow> Time \<Rightarrow> bool" where
  "After t u = (u < t)"

definition Equal :: "Time \<Rightarrow> Time \<Rightarrow> bool" where
  "Equal t u = (t = u)"

definition seconds :: "int \<Rightarrow> Time" where
  "seconds n = n * 1000000000"

datatype AppConditionType =
  Reconciling | ReconcileSucceeded | ReconcileFailed | Deleting | DeleteFailed
  | OtherConditionType string

datatype ConditionStatus = ConditionTrue | ConditionFalse | ConditionUnknown

record Condition =
  Type :: AppConditionType
  Status :: ConditionStatus
  Reason :: string

record StageStatus =
  ExitCode :: int
  StartedAt :: Time
  UpdatedAt :: Time
  Stdout :: string
  Stderr :: string

record DeployStatus = StageStatus +
  Finished :: bool
  Error :: string

record AppStatus =
  Conditions :: "Condition list"
  FriendlyDescription :: string
  ObservedGeneration :: int
  Fetch :: "StageStatus option"
  Template :: "StageStatus option"
  Deploy :: "DeployStatus option"
  ConsecutiveReconcileSuccesses :: int
  ConsecutiveReconcileFailures :: int

text \<open>The run-time panics of Go that the modelled functions can raise.\<close>

datatype panic =
  NilPointerDereference | IndexOutOfRange | CloseOfClosedChannel | CloseOfNilChannel

text \<open>
  Go \<open>error\<close> values: one returned by the API client, or one built by \<open>fmt.Errorf\<close> from
  a format string and the errors passed as its arguments.
\<close>

datatype error = ClientError string | Errorf string "error list"

section \<open>The status summary of \<open>PrintInfo\<close>\<close>

text \<open>
  The colouring functions of the external package \<open>color\<close> are parameters of the model.
\<close>

record color =
  GreenString :: "string \<Rightarrow> string"
  RedString :: "string \<Rightarrow> string"

text \<open>Decimal rendering, as the verb \<open>%d\<close> of \<open>fmt.Sprintf\<close> does it.\<close>

function showNat :: "nat \<Rightarrow> string" where
  "showNat n = (if n < 10 then [char_of (48 + n)]
                else showNat (n div 10) @ [char_of (48 + n mod 10)])"
  by pat_completeness auto
termination
  by (relation "measure id") auto

definition showInt :: "int \<Rightarrow> string" where
  "showInt i = (if i < 0 then CHR ''-'' # showNat (nat (- i)) else showNat (nat i))"

definition metricString :: "AppStatus \<Rightarrow> string" where
  "metricString status =
     (if ConsecutiveReconcileFailures status \<noteq> 0
        then showInt (ConsecutiveReconcileFailures status) @ '' consecutive failures''
      else if ConsecutiveReconcileSuccesses status \<noteq> 0
        then showInt (ConsecutiveReconcileSuccesses status) @ '' consecutive successes''
      else ''0 consecutive failures | 0 consecutive successes'')"

text \<open>
  \<open>status.Conditions[0]\<close> is evaluated before the \<open>switch\<close> dispatches; on an empty slice
  Go panics with an index out of range.
\<close>

definition statusString :: "color \<Rightarrow> AppStatus \<Rightarrow> panic + string" where
  "statusString col status =
     (case Conditions status of
        [] \<Rightarrow> Inl IndexOutOfRange
      | c # _ \<Rightarrow>
          Inr (case Type c of
                 Reconciling \<Rightarrow> ''Reconciling''
               | ReconcileSucceeded \<Rightarrow> GreenString col ''Reconcile succeeded''
               | ReconcileFailed \<Rightarrow> RedString col ''Reconcile failed''
               | Deleting \<Rightarrow> ''Deleting''
               | DeleteFailed \<Rightarrow> RedString col ''Deletion failed''
               | OtherConditionType _ \<Rightarrow> FriendlyDescription status))"

fun hasReconciledLoop :: "Condition list \<Rightarrow> bool" where
  "hasReconciledLoop [] = False"
| "hasReconciledLoop (condition # rest) =
     (if Type condition = ReconcileSucceeded \<and> Status condition = ConditionTrue then True
      else hasReconciledLoop rest)"

definition hasReconciled :: "AppStatus \<Rightarrow> bool" where
  "hasReconciled status = hasReconciledLoop (Conditions status)"

section \<open>The status tailer (\<open>app-watcher.go\<close>)\<close>

text \<open>
  Modelled from the spec: the type \<open>AppStage\<close> and its constants are declared outside the
  sources; \<open>noStage\<close> is the empty stage name that \<open>printTillCurrent\<close> returns last.
\<close>

datatype AppStage = fetchStage | templateStage | deployStage | reconciled | noStage

text \<open>
  The terminal is the external collaborator \<open>ui.UI\<close>; the model keeps the transcript of the
  calls made on it.  \<open>BeginLinef\<close> carries the message and the start time from which the
  age is printed (the clock itself is not modelled).  The channel \<open>stopperChan\<close> is \<open>nil\<close>
  until \<open>TailAppStatus\<close> makes it; closing a closed or a \<open>nil\<close> channel panics.
\<close>

datatype ui_call = BeginLinef string "Time option" | PrintBlock string

datatype chan = ChanNil | ChanOpen | ChanClosed

record AppWatcher =
  ui :: "ui_call list"
  stopperChan :: chan

definition andThen :: "panic + 'a \<Rightarrow> ('a \<Rightarrow> panic + 'b) \<Rightarrow> panic + 'b" where
  "andThen r f = (case r of Inl p \<Rightarrow> Inl p | Inr a \<Rightarrow> f a)"

fun Split :: "string \<Rightarrow> char \<Rightarrow> string list" where
  "Split [] sep = [[]]"
| "Split (c # cs) sep =
     (if c = sep then [] # Split cs sep
      else (case Split cs sep of [] \<Rightarrow> [[c]] | l # ls \<Rightarrow> (c # l) # ls))"

fun Join :: "string list \<Rightarrow> string \<Rightarrow> string" where
  "Join [] sep = []"
| "Join [x] sep = x"
| "Join (x # y # ys) sep = x @ sep @ Join (y # ys) sep"

definition LastIndex :: "string \<Rightarrow> char \<Rightarrow> int" where
  "LastIndex s c =
     (case filter (\<lambda>i. s ! i = c) (rev [0..<length s]) of [] \<Rightarrow> - 1 | i # _ \<Rightarrow> int i)"

definition indentMessageBlock :: "color \<Rightarrow> string \<Rightarrow> bool \<Rightarrow> string" where
  "indentMessageBlock col messageBlock errored =
     (let lines = map (\<lambda>l. [CHR 0x09, CHR '' '', CHR '' '', CHR ''|'', CHR '' '']
                            @ (if errored then RedString col l else l))
                      (Split messageBlock (CHR 0x0A));
          indentedBlock = Join lines [CHR 0x0A]
      in if LastIndex indentedBlock (CHR 0x0A) \<noteq> int (length indentedBlock) - 1
         then indentedBlock @ [CHR 0x0A] else indentedBlock)"

definition printLogLine ::
  "color \<Rightarrow> string \<Rightarrow> string \<Rightarrow> bool \<Rightarrow> Time option \<Rightarrow> AppWatcher \<Rightarrow> AppWatcher" where
  "printLogLine col message messageBlock errorBlock startTime w =
     w\<lparr>ui := ui w @ BeginLinef message startTime
                 # (if length messageBlock > 0
                    then [PrintBlock (indentMessageBlock col messageBlock errorBlock)]
                    else [])\<rparr>"

definition stopWatch :: "AppWatcher \<Rightarrow> panic + AppWatcher" where
  "stopWatch w =
     (case stopperChan w of
        ChanOpen \<Rightarrow> Inr (w\<lparr>stopperChan := ChanClosed\<rparr>)
      | ChanClosed \<Rightarrow> Inl CloseOfClosedChannel
      | ChanNil \<Rightarrow> Inl CloseOfNilChannel)"

subsection \<open>\<open>printTillCurrent\<close>\<close>

text \<open>
  Each of the three blocks either returns from the function (\<open>Some\<close> of the returned pair)
  or falls through to the next block (\<open>None\<close>).  The template block reads
  \<open>status.Fetch.StartedAt\<close> without a \<open>nil\<close> check, which panics when \<open>status.Fetch\<close> is
  \<open>nil\<close>.
\<close>

type_synonym returned = "AppStage \<times> error option"

definition printTillCurrentFetch ::
  "color \<Rightarrow> AppStatus \<Rightarrow> AppWatcher \<Rightarrow> returned option \<times> AppWatcher" where
  "printTillCurrentFetch col status w =
     (case Fetch status of
        None \<Rightarrow> (None, w)
      | Some f \<Rightarrow>
          if ExitCode f \<noteq> 0 \<and> Unix (UpdatedAt f) \<ge> Unix (StartedAt f)
          then (Some (fetchStage, Some (Errorf (Stderr f) [])),
                printLogLine col ''Fetch failed'' (Stderr f) True None w)
          else if After (StartedAt f) (UpdatedAt f)
          then (Some (fetchStage, None),
                printLogLine col ''Fetch started'' [] False (Some (StartedAt f)) w)
          else (None, printLogLine col ''Fetch succeeded'' (Stdout f) False (Some (UpdatedAt f)) w))"

definition printTillCurrentTemplate ::
  "color \<Rightarrow> AppStatus \<Rightarrow> AppWatcher \<Rightarrow> panic + (returned option \<times> AppWatcher)" where
  "printTillCurrentTemplate col status w =
     (case Template status of
        None \<Rightarrow> Inr (None, w)
      | Some t \<Rightarrow>
          (case Fetch status of
             None \<Rightarrow> Inl NilPointerDereference
           | Some f \<Rightarrow>
               if ExitCode t \<noteq> 0 \<and> Unix (StartedAt f) < Unix (UpdatedAt t)
               then Inr (Some (templateStage, Some (Errorf (Stderr t) [])),
                         printLogLine col ''Template failed'' (Stderr t) True None w)
               else if After (StartedAt f) (UpdatedAt t)
               then Inr (Some (templateStage, None),
                         printLogLine col ''Template started'' [] False None w)
               else Inr (None,
                         printLogLine col ''Template succeeded'' [] False (Some (UpdatedAt t)) w)))"

definition printTillCurrentDeploy ::
  "color \<Rightarrow> AppStatus \<Rightarrow> AppWatcher \<Rightarrow> returned option \<times> AppWatcher" where
  "printTillCurrentDeploy col status w =
     (case Deploy status of
        None \<Rightarrow> (None, w)
      | Some d \<Rightarrow>
          if ExitCode d \<noteq> 0 \<and> Unix (StartedAt d) < Unix (UpdatedAt d)
          then (Some (deployStage, Some (Errorf (Error d) [])),
                printLogLine col ''Deploy failed'' (Stderr d) True None w)
          else if hasReconciled status
          then (Some (reconciled, None),
                printLogLine col ''Deploy succeeded'' (Stdout d) False (Some (UpdatedAt d)) w)
          else (None, printLogLine col ''Deploy started'' (Stdout d) False (Some (StartedAt d)) w))"

definition printTillCurrent ::
  "color \<Rightarrow> AppStatus \<Rightarrow> AppWatcher \<Rightarrow> panic + (returned \<times> AppWatcher)" where
  "printTillCurrent col status w =
     (case printTillCurrentFetch col status w of
        (Some r, w1) \<Rightarrow> Inr (r, w1)
      | (None, w1) \<Rightarrow>
          andThen (printTillCurrentTemplate col status w1)
            (\<lambda>(r2, w2).
               case r2 of
                 Some r \<Rightarrow> Inr (r, w2)
               | None \<Rightarrow>
                   (case printTillCurrentDeploy col status w2 of
                      (Some r, w3) \<Rightarrow> Inr (r, w3)
                    | (None, w3) \<Rightarrow> Inr ((noStage, None), w3))))"

subsection \<open>\<open>printUpdate\<close>\<close>

text \<open>
  \<open>printUpdate\<close> does not return after a failure line: it stops the watch and goes on to
  the success line of the same block.  Arguments are evaluated before the call, so a
  \<open>nil\<close> \<open>status.Template\<close> panics before the line that names its field is printed.
\<close>

definition printUpdateFetch ::
  "color \<Rightarrow> AppStatus \<Rightarrow> AppStatus \<Rightarrow> AppWatcher \<Rightarrow> panic + AppWatcher" where
  "printUpdateFetch col oldStatus status w =
     (case Fetch status of
        None \<Rightarrow> Inr w
      | Some f \<Rightarrow>
          (let w1 = (if (case Fetch oldStatus of
                           None \<Rightarrow> True
                         | Some old \<Rightarrow> \<not> Equal (StartedAt old) (StartedAt f)
                                       \<and> Unix (UpdatedAt f) \<le> Unix (StartedAt f))
                     then printLogLine col ''Fetch started'' [] False None w else w)
           in if (case Fetch oldStatus of
                    None \<Rightarrow> True
                  | Some old \<Rightarrow> \<not> Equal (UpdatedAt old) (UpdatedAt f))
              then (if ExitCode f \<noteq> 0 \<and> Unix (UpdatedAt f) \<ge> Unix (StartedAt f)
                    then (case Template status of
                            None \<Rightarrow> Inl NilPointerDereference
                          | Some t \<Rightarrow>
                              andThen (stopWatch (printLogLine col ''Fetch failed'' (Stderr t) True None w1))
                                (\<lambda>w2. Inr (printLogLine col ''Fetch succeeded'' (Stdout f) False None w2)))
                    else Inr (printLogLine col ''Fetch succeeded'' (Stdout f) False None w1))
              else Inr w1))"

definition printUpdateTemplate ::
  "color \<Rightarrow> AppStatus \<Rightarrow> AppStatus \<Rightarrow> AppWatcher \<Rightarrow> panic + AppWatcher" where
  "printUpdateTemplate col oldStatus status w =
     (case Template status of
        None \<Rightarrow> Inr w
      | Some t \<Rightarrow>
          if (case Template oldStatus of
                None \<Rightarrow> True
              | Some old \<Rightarrow> \<not> Equal (UpdatedAt old) (UpdatedAt t))
          then (if ExitCode t \<noteq> 0
                then andThen (stopWatch (printLogLine col ''Template failed'' (Stderr t) True None w))
                       (\<lambda>w1. Inr (printLogLine col ''Template succeeded'' [] False None w1))
                else Inr (printLogLine col ''Template succeeded'' [] False None w))
          else Inr w)"

definition printUpdateDeploy ::
  "color \<Rightarrow> AppStatus \<Rightarrow> AppStatus \<Rightarrow> AppWatcher \<Rightarrow> panic + AppWatcher" where
  "printUpdateDeploy col oldStatus status w =
     (case Deploy status of
        None \<Rightarrow> Inr w
      | Some d \<Rightarrow>
          (let w1 = (if (case Deploy oldStatus of
                           None \<Rightarrow> True
                         | Some old \<Rightarrow> \<not> Equal (StartedAt old) (StartedAt d))
                     then printLogLine col ''Deploy started'' [] False None w else w)
           in if (case Deploy oldStatus of
                    None \<Rightarrow> True
                  | Some old \<Rightarrow> \<not> Equal (UpdatedAt old) (UpdatedAt d))
              then (case Template status of
                      None \<Rightarrow> Inl NilPointerDereference
                    | Some t \<Rightarrow>
                        if ExitCode t \<noteq> 0 \<and> Finished d
                        then andThen (stopWatch (printLogLine col ''Deploy failed'' (Stderr d) True None w1))
                               (\<lambda>w2. Inr (printLogLine col ''Deploy progressing'' (Stdout d) False None w2))
                        else Inr (printLogLine col ''Deploy progressing'' (Stdout d) False None w1))
              else Inr w1))"

definition printUpdate ::
  "color \<Rightarrow> AppStatus \<Rightarrow> AppStatus \<Rightarrow> AppWatcher \<Rightarrow> panic + AppWatcher" where
  "printUpdate col oldStatus status w =
     andThen (printUpdateFetch col oldStatus status w) (\<lambda>w1.
     andThen (printUpdateTemplate col oldStatus status w1) (\<lambda>w2.
     andThen (printUpdateDeploy col oldStatus status w2) (\<lambda>w3.
       if hasReconciled status
       then stopWatch (printLogLine col ''App reconciled'' [] False None w3)
       else Inr w3)))"

section \<open>The resource adapter of a PackageRepository (\<open>CRDApp\<close>)\<close>

text \<open>
  The adapter holds its own copy of the resource (\<open>pkgrModel\<close>), the status of the engine
  it wraps (\<open>a.app.Status()\<close>) and the API client.  The client is an external collaborator;
  it is modelled as the fake clientset is: the stored objects, found by namespace and
  name, a record of the calls made, and a script of injected faults, one entry consumed
  by each call (\<open>Some e\<close> makes that call fail with \<open>e\<close> and leaves the store alone).  A
  write replaces the stored object of the same namespace and name.  Logging is left out.
\<close>

record PackageRepository =
  Namespace :: string
  Name :: string
  Finalizers :: "string list"
  RepoStatus :: AppStatus

datatype action =
  GetAction string string | UpdateAction string string | UpdateStatusAction string string

record Client =
  objects :: "PackageRepository list"
  faults :: "error option list"
  actions :: "action list"

record CRDApp =
  pkgrModel :: PackageRepository
  appStatus :: AppStatus
  appClient :: Client

definition called :: "action \<Rightarrow> Client \<Rightarrow> Client" where
  "called act c = c\<lparr>faults := tl (faults c), actions := actions c @ [act]\<rparr>"

definition injected :: "Client \<Rightarrow> error option" where
  "injected c = (case faults c of Some e # _ \<Rightarrow> Some e | _ \<Rightarrow> None)"

definition notFound :: "string \<Rightarrow> error" where
  "notFound name = ClientError (''packagerepositories '' @ name @ '' not found'')"

definition badNamespace :: error where
  "badNamespace = ClientError ''the namespace of the provided object does not match the namespace sent on the request''"

definition lookup :: "string \<Rightarrow> string \<Rightarrow> PackageRepository list \<Rightarrow> PackageRepository option" where
  "lookup ns name objs = find (\<lambda>x. Namespace x = ns \<and> Name x = name) objs"

definition replace :: "PackageRepository \<Rightarrow> PackageRepository list \<Rightarrow> PackageRepository list" where
  "replace r objs = map (\<lambda>x. if Namespace x = Namespace r \<and> Name x = Name r then r else x) objs"

definition clientGet :: "string \<Rightarrow> string \<Rightarrow> Client \<Rightarrow> (error + PackageRepository) \<times> Client" where
  "clientGet ns name c =
     (case injected c of
        Some e \<Rightarrow> (Inl e, called (GetAction ns name) c)
      | None \<Rightarrow>
          (case lookup ns name (objects c) of
             None \<Rightarrow> (Inl (notFound name), called (GetAction ns name) c)
           | Some r \<Rightarrow> (Inr r, called (GetAction ns name) c)))"

definition clientWrite ::
  "action \<Rightarrow> string \<Rightarrow> PackageRepository \<Rightarrow> Client \<Rightarrow> (error + PackageRepository) \<times> Client" where
  "clientWrite act ns r c =
     (case injected c of
        Some e \<Rightarrow> (Inl e, called act c)
      | None \<Rightarrow>
          if Namespace r \<noteq> ns then (Inl badNamespace, called act c)
          else (case lookup ns (Name r) (objects c) of
                  None \<Rightarrow> (Inl (notFound (Name r)), called act c)
                | Some _ \<Rightarrow> (Inr r, (called act c)\<lparr>objects := replace r (objects c)\<rparr>)))"

definition clientUpdate ::
  "string \<Rightarrow> PackageRepository \<Rightarrow> Client \<Rightarrow> (error + PackageRepository) \<times> Client" where
  "clientUpdate ns r c = clientWrite (UpdateAction ns (Name r)) ns r c"

definition clientUpdateStatus ::
  "string \<Rightarrow> PackageRepository \<Rightarrow> Client \<Rightarrow> (error + PackageRepository) \<times> Client" where
  "clientUpdateStatus ns r c = clientWrite (UpdateStatusAction ns (Name r)) ns r c"

text \<open>
  Modelled from the spec: the helpers \<open>containsString\<close> and \<open>removeString\<close> are defined
  outside the sources.  By the specification, blocking looks for the finalizer name in
  the list and unblocking removes a name from it, whichever and however many entries
  carry it.  The two finalizer names are constants declared outside the sources too; the
  functions below take them as the parameters \<open>deleteFinalizerName\<close> and
  \<open>deletePrevFinalizerName\<close>.
\<close>

fun containsString :: "string list \<Rightarrow> string \<Rightarrow> bool" where
  "containsString [] s = False"
| "containsString (item # slice) s = (if item = s then True else containsString slice s)"

fun removeString :: "string list \<Rightarrow> string \<Rightarrow> string list" where
  "removeString [] s = []"
| "removeString (item # slice) s =
     (if item = s then removeString slice s else item # removeString slice s)"

definition updatePackageRepository ::
  "(PackageRepository \<Rightarrow> PackageRepository) \<Rightarrow> CRDApp \<Rightarrow> error option \<times> CRDApp" where
  "updatePackageRepository updateFunc a =
     (case clientGet (Namespace (pkgrModel a)) (Name (pkgrModel a)) (appClient a) of
        (Inl err, c) \<Rightarrow>
          (Some (Errorf ''Updating PackageRepository: %s'' [err]), a\<lparr>appClient := c\<rparr>)
      | (Inr existingRepo, c) \<Rightarrow>
          (case clientUpdate (Namespace existingRepo) (updateFunc existingRepo) c of
             (Inl err, c') \<Rightarrow>
               (Some (Errorf ''Updating PackageRepository: %s'' [err]), a\<lparr>appClient := c'\<rparr>)
           | (Inr _, c') \<Rightarrow> (None, a\<lparr>appClient := c'\<rparr>)))"

definition blockDeletion :: "string \<Rightarrow> CRDApp \<Rightarrow> error option \<times> CRDApp" where
  "blockDeletion deleteFinalizerName a =
     (if containsString (Finalizers (pkgrModel a)) deleteFinalizerName then (None, a)
      else updatePackageRepository
             (\<lambda>app. if \<not> containsString (Finalizers app) deleteFinalizerName
                    then app\<lparr>Finalizers := Finalizers app @ [deleteFinalizerName]\<rparr>
                    else app) a)"

definition unblockDeletion :: "string \<Rightarrow> string \<Rightarrow> CRDApp \<Rightarrow> error option \<times> CRDApp" where
  "unblockDeletion deleteFinalizerName deletePrevFinalizerName a =
     updatePackageRepository
       (\<lambda>app. (let app1 = app\<lparr>Finalizers := removeString (Finalizers app) deleteFinalizerName\<rparr>
               in app1\<lparr>Finalizers := removeString (Finalizers app1) deletePrevFinalizerName\<rparr>)) a"

definition updateStatusOnce :: "CRDApp \<Rightarrow> error option \<times> CRDApp" where
  "updateStatusOnce a =
     (case clientGet (Namespace (pkgrModel a)) (Name (pkgrModel a)) (appClient a) of
        (Inl err, c) \<Rightarrow>
          (Some (Errorf ''Fetching PackageRepository: %s'' [err]), a\<lparr>appClient := c\<rparr>)
      | (Inr existingRepo, c) \<Rightarrow>
          (case clientUpdateStatus (Namespace existingRepo)
                  (existingRepo\<lparr>RepoStatus := appStatus a\<rparr>) c of
             (Inl err, c') \<Rightarrow> (Some err, a\<lparr>appClient := c'\<rparr>)
           | (Inr _, c') \<Rightarrow> (None, a\<lparr>appClient := c'\<rparr>)))"

text \<open>The loop \<open>for i := 0; i < 5; i++\<close> of \<open>updateStatus\<close>, with \<open>lastErr\<close> carried along.\<close>

function updateStatusLoop :: "nat \<Rightarrow> error option \<Rightarrow> CRDApp \<Rightarrow> error option \<times> CRDApp" where
  "updateStatusLoop i lastErr a =
     (if i < 5
      then (case updateStatusOnce a of
              (None, a') \<Rightarrow> (None, a')
            | (Some e, a') \<Rightarrow> updateStatusLoop (i + 1) (Some e) a')
      else (lastErr, a))"
  by pat_completeness auto
termination
  by (relation "measure (\<lambda>(i, lastErr, a). 5 - i)") auto

definition updateStatus :: "string \<Rightarrow> CRDApp \<Rightarrow> error option \<times> CRDApp" where
  "updateStatus desc a = updateStatusLoop 0 None a"

text \<open>
  The attempts of \<open>updateStatusOnce\<close> made one after the other on the adapter: the state
  after \<open>n\<close> of them and the outcome of the next one.  These two serve to state what
  \<open>updateStatus\<close> does.
\<close>

fun afterAttempts :: "nat \<Rightarrow> CRDApp \<Rightarrow> CRDApp" where
  "afterAttempts 0 a = a"
| "afterAttempts (Suc n) a = afterAttempts n (snd (updateStatusOnce a))"

definition attemptOutcome :: "nat \<Rightarrow> CRDApp \<Rightarrow> error option" where
  "attemptOutcome n a = fst (updateStatusOnce (afterAttempts n a))"

definition storedFinalizers :: "CRDApp \<Rightarrow> string list option" where
  "storedFinalizers a =
     map_option Finalizers
       (lookup (Namespace (pkgrModel a)) (Name (pkgrModel a)) (objects (appClient a)))"

section \<open>The restricted flag sets (\<open>kapp_restrict.go\<close>)\<close>

definition kappAllowedSharedOpts :: "string list" where
  "kappAllowedSharedOpts =
     [''--column'', ''--debug'', ''--json'', ''--tty'',
      ''--dangerous-ignore-failing-api-services'',
      ''--dangerous-scope-to-fallback-allowed-namespaces'',
      ''--filter'', ''--filter-age'', ''--filter-kind'', ''--filter-kind-name'',
      ''--filter-kind-ns'', ''--filter-kind-ns-name'', ''--filter-name'', ''--filter-ns'',
      ''--kube-api-qps'', ''--kube-api-burst'']"

definition kappAllowedChangeOpts :: "string list" where
  "kappAllowedChangeOpts =
     [''--diff-changes'', ''--diff-against-last-applied'', ''--diff-context'',
      ''--diff-line-numbers'', ''--diff-mask'', ''--diff-run'', ''--diff-summary'',
      ''--apply-check-interval'', ''--apply-concurrency'',
      ''--apply-default-update-strategy'', ''--apply-ignored'', ''--apply-timeout'',
      ''--wait'', ''--wait-check-interval'', ''--wait-concurrency'', ''--wait-ignored'',
      ''--wait-timeout'']"

text \<open>
  Modelled from the spec: \<open>exec.NewFlagSet\<close> and the membership test of a flag set are
  defined outside the sources.  By section 4.3 of the specification an allow-list is the
  union of the flag lists it is built from.
\<close>

definition NewFlagSet :: "string list list \<Rightarrow> string set" where
  "NewFlagSet flagSets = set (concat flagSets)"

definition Includes :: "string set \<Rightarrow> string \<Rightarrow> bool" where
  "Includes flagSet flag = (flag \<in> flagSet)"

definition kappAllowedDeployFlagSet :: "string set" where
  "kappAllowedDeployFlagSet =
     NewFlagSet [kappAllowedSharedOpts, kappAllowedChangeOpts,
       [''--dangerous-allow-empty-list-of-resources'',
        ''--dangerous-override-ownership-of-existing-resources'',
        ''--into-ns'', ''--map-ns'',
        ''--logs'', ''--logs-all'',
        ''--app-changes-max-to-keep'',
        ''--labels'', ''--patch'']]"

definition kappAllowedInspectFlagSet :: "string set" where
  "kappAllowedInspectFlagSet =
     NewFlagSet [kappAllowedSharedOpts, [''--raw'', ''--status'', ''--tree'']]"

definition kappAllowedDeleteFlagSet :: "string set" where
  "kappAllowedDeleteFlagSet = NewFlagSet [kappAllowedSharedOpts, kappAllowedChangeOpts]"

text \<open>
  Modelled from the spec: the gate that checks the user's raw options against a flag set
  is defined outside the sources.  By section 4.3 of the specification it takes an
  operation and the user-supplied strings, checks every flag by its name, the portion
  before \<open>=\<close>, rejects the whole invocation with an error naming the first flag that is
  not in the operation's allow-list, and otherwise hands the strings on as they are.  A
  string that does not begin with \<open>-\<close> is taken to be the value token that follows a
  flag; values are not validated.
\<close>

datatype Operation = OpDeploy | OpInspect | OpDelete

datatype FlagError = UnexpectedFlag string

definition allowList :: "Operation \<Rightarrow> string set" where
  "allowList operation =
     (case operation of
        OpDeploy \<Rightarrow> kappAllowedDeployFlagSet
      | OpInspect \<Rightarrow> kappAllowedInspectFlagSet
      | OpDelete \<Rightarrow> kappAllowedDeleteFlagSet)"

definition isFlag :: "string \<Rightarrow> bool" where
  "isFlag token = (case token of [] \<Rightarrow> False | c # _ \<Rightarrow> c = CHR ''-'')"

definition flagName :: "string \<Rightarrow> string" where
  "flagName token = takeWhile (\<lambda>c. c \<noteq> CHR ''='') token"

fun checkFlags :: "string set \<Rightarrow> string list \<Rightarrow> FlagError option" where
  "checkFlags allowed [] = None"
| "checkFlags allowed (token # rest) =
     (if isFlag token \<and> \<not> Includes allowed (flagName token)
      then Some (UnexpectedFlag (flagName token))
      else checkFlags allowed rest)"

definition BuildInvocation :: "Operation \<Rightarrow> string list \<Rightarrow> FlagError + string list" where
  "BuildInvocation operation userSuppliedFlags =
     (case checkFlags (allowList operation) userSuppliedFlags of
        Some e \<Rightarrow> Inl e
      | None \<Rightarrow> Inr userSuppliedFlags)"

section \<open>The reconcile counters\<close>

text \<open>
  Modelled from the spec: the engine that maintains the two counters is defined outside
  the sources.  By section 4.1 of the specification a terminal success of a reconcile
  increments \<open>ConsecutiveReconcileSuccesses\<close> and zeroes \<open>ConsecutiveReconcileFailures\<close>,
  and a terminal failure does the symmetric update.  A resource that has not been
  reconciled yet has the empty status, in which Go leaves both counters at zero.
\<close>

datatype ReconcileOutcome = ReconcileSuccess | ReconcileFailure

definition emptyStatus :: AppStatus where
  "emptyStatus =
     \<lparr>Conditions = [], FriendlyDescription = [], ObservedGeneration = 0,
      Fetch = None, Template = None, Deploy = None,
      ConsecutiveReconcileSuccesses = 0, ConsecutiveReconcileFailures = 0\<rparr>"

definition reconcileCompleted :: "ReconcileOutcome \<Rightarrow> AppStatus \<Rightarrow> AppStatus" where
  "reconcileCompleted outcome status =
     (case outcome of
        ReconcileSuccess \<Rightarrow>
          status\<lparr>ConsecutiveReconcileSuccesses := ConsecutiveReconcileSuccesses status + 1,
                 ConsecutiveReconcileFailures := 0\<rparr>
      | ReconcileFailure \<Rightarrow>
          status\<lparr>ConsecutiveReconcileFailures := ConsecutiveReconcileFailures status + 1,
                 ConsecutiveReconcileSuccesses := 0\<rparr>)"

fun afterOutcomes :: "ReconcileOutcome list \<Rightarrow> AppStatus \<Rightarrow> AppStatus" where
  "afterOutcomes [] status = status"
| "afterOutcomes (outcome # rest) status = afterOutcomes rest (reconcileCompleted outcome status)"

section \<open>Concrete inputs and observations\<close>

text \<open>
  A colour package that leaves strings as they are, and a watcher whose channel has been
  made, as \<open>TailAppStatus\<close> leaves it before the first update arrives.
\<close>

definition plainColor :: color where
  "plainColor = \<lparr>GreenString = (\<lambda>s. s), RedString = (\<lambda>s. s)\<rparr>"

definition newWatcher :: AppWatcher where
  "newWatcher = \<lparr>ui = [], stopperChan = ChanOpen\<rparr>"

text \<open>
  \<open>printed message calls\<close>: a line with this message was begun on the terminal.
  \<open>reportsTillCurrent\<close> runs \<open>printTillCurrent\<close> on an empty transcript and looks for the
  message in what it printed.
\<close>

definition printed :: "string \<Rightarrow> ui_call list \<Rightarrow> bool" where
  "printed message calls =
     list_ex (\<lambda>c. case c of BeginLinef m _ \<Rightarrow> m = message | PrintBlock _ \<Rightarrow> False) calls"



text \<open>
  A deploy that failed within the second in which it started, after a fetch and a
  template that succeeded.
\<close>

definition quickDeployFailure :: AppStatus where
  "quickDeployFailure =
    \<lparr>Conditions = [\<lparr>Type = ReconcileFailed, Status = ConditionTrue, Reason = []\<rparr>],
     FriendlyDescription = ''Reconcile failed'', ObservedGeneration = 1,
     Fetch = Some \<lparr>ExitCode = 0, StartedAt = seconds 90, UpdatedAt = seconds 95,
                   Stdout = [], Stderr = []\<rparr>,
     Template = Some \<lparr>ExitCode = 0, StartedAt = seconds 95, UpdatedAt = seconds 96,
                      Stdout = [], Stderr = []\<rparr>,
     Deploy = Some \<lparr>ExitCode = 1, StartedAt = seconds 100, UpdatedAt = seconds 100,
                    Stdout = [], Stderr = ''kapp: Error'', Finished = True,
                    Error = ''Deploying: exit status 1''\<rparr>,
     ConsecutiveReconcileSuccesses = 0, ConsecutiveReconcileFailures = 1\<rparr>"

text \<open>
  An update in which the fetch of a new run fails, while the status still carries the
  template failure of the run before.
\<close>

definition fetchFailedBefore :: AppStatus where
  "fetchFailedBefore =
    \<lparr>Conditions = [\<lparr>Type = Reconciling, Status = ConditionTrue, Reason = []\<rparr>],
     FriendlyDescription = ''Reconciling'', ObservedGeneration = 1,
     Fetch = Some \<lparr>ExitCode = 0, StartedAt = seconds 10, UpdatedAt = seconds 20,
                   Stdout = [], Stderr = []\<rparr>,
     Template = Some \<lparr>ExitCode = 1, StartedAt = seconds 20, UpdatedAt = seconds 21,
                      Stdout = [], Stderr = ''ytt: template error''\<rparr>,
     Deploy = None,
     ConsecutiveReconcileSuccesses = 0, ConsecutiveReconcileFailures = 1\<rparr>"

definition fetchFailedAfter :: AppStatus where
  "fetchFailedAfter =
     fetchFailedBefore\<lparr>Fetch := Some \<lparr>ExitCode = 1, StartedAt = seconds 30,
                                      UpdatedAt = seconds 31, Stdout = [],
                                      Stderr = ''vendir: fetch error''\<rparr>\<rparr>"

definition noConditions :: AppStatus where
  "noConditions = emptyStatus\<lparr>FriendlyDescription := ''Waiting for first reconcile''\<rparr>"

definition unknownCondition :: AppStatus where
  "unknownCondition =
     noConditions\<lparr>Conditions := [\<lparr>Type = OtherConditionType ''Paused'',
                                  Status = ConditionTrue, Reason = []\<rparr>]\<rparr>"



text \<open>
  An adapter for a stored PackageRepository with the given finalizers, whose client
  follows the given script of faults; and two scripts in which the write of the status
  meets a conflict four times, respectively five times, in a row.
\<close>

definition conflict :: error where
  "conflict = ClientError ''the object has been modified; please apply your changes to the latest version and try again''"

definition storedRepo :: "string list \<Rightarrow> PackageRepository" where
  "storedRepo finalizers =
     \<lparr>Namespace = ''kapp-controller'', Name = ''tanzu-packages'', Finalizers = finalizers,
      RepoStatus = emptyStatus\<rparr>"

definition adapter :: "string list \<Rightarrow> error option list \<Rightarrow> CRDApp" where
  "adapter finalizers script =
     \<lparr>pkgrModel = storedRepo finalizers, appStatus = quickDeployFailure,
      appClient = \<lparr>objects = [storedRepo finalizers], faults = script, actions = []\<rparr>\<rparr>"

definition fourConflicts :: CRDApp where
  "fourConflicts =
     adapter [] [None, Some conflict, None, Some conflict, None, Some conflict, None, Some conflict]"

definition fiveConflicts :: CRDApp where
  "fiveConflicts =
     adapter [] [None, Some conflict, None, Some conflict, None, Some conflict, None, Some conflict,
                 None, Some conflict]"

text \<open>
  Finalizer names to run the adapter on, and an adapter whose resource carries the
  current name twice.
\<close>

definition currentFinalizer :: string where
  "currentFinalizer = ''finalizers.packagerepository.packaging.carvel.dev/delete''"

definition previousFinalizer :: string where
  "previousFinalizer = ''finalizers.kapp-ctrl.k14s.io/delete''"

definition duplicatedFinalizer :: CRDApp where
  "duplicatedFinalizer = adapter [currentFinalizer, currentFinalizer] []"

section \<open>Theorems\<close>

text \<open>
  C10.  \<open>statusString\<close> reads the first condition before any case is chosen.  With an
  empty \<open>Conditions\<close> sequence the read is out of bounds and no string is returned, so the
  \<open>FriendlyDescription\<close> fallback is not reached.  With a non-empty sequence a string is
  always returned; it is \<open>FriendlyDescription\<close> exactly for a type that is none of the
  five recognised ones.
\<close>

theorem statusString_reads_first_condition:
  "(Conditions status = [] \<longrightarrow> statusString col status = Inl IndexOutOfRange)
   \<and> (Conditions status \<noteq> [] \<longrightarrow>
        (\<exists>s. statusString col status = Inr s)
        \<and> statusString col status =
            Inr (case Type (hd (Conditions status)) of
                   Reconciling \<Rightarrow> ''Reconciling''
                 | ReconcileSucceeded \<Rightarrow> GreenString col ''Reconcile succeeded''
                 | ReconcileFailed \<Rightarrow> RedString col ''Reconcile failed''
                 | Deleting \<Rightarrow> ''Deleting''
                 | DeleteFailed \<Rightarrow> RedString col ''Deletion failed''
                 | OtherConditionType t \<Rightarrow> FriendlyDescription status))"
  by (cases "Conditions status") (simp_all add: statusString_def)

theorem statusString_reads_first_condition_witness:
  "statusString plainColor noConditions = Inl IndexOutOfRange
   \<and> statusString plainColor unknownCondition = Inr ''Waiting for first reconcile''"
  using statusString_reads_first_condition [of noConditions plainColor]
        statusString_reads_first_condition [of unknownCondition plainColor]
  by (simp add: noConditions_def unknownCondition_def emptyStatus_def)

subsection \<open>What the tailer reports\<close>

lemmas tillCurrent_defs =
  printTillCurrent_def printTillCurrentFetch_def printTillCurrentTemplate_def
  printTillCurrentDeploy_def printLogLine_def andThen_def hasReconciled_def
  Unix_def After_def seconds_def

lemmas update_defs =
  printUpdate_def printUpdateFetch_def printUpdateTemplate_def printUpdateDeploy_def
  printLogLine_def andThen_def hasReconciled_def stopWatch_def
  Unix_def After_def Equal_def seconds_def

text \<open>
  What the fetch block and the deploy block of \<open>printTillCurrent\<close> test before they print
  their failure line: the fetch block includes the case of equal seconds, the deploy
  block leaves it out.
\<close>

lemma printTillCurrentFetch_failed_iff:
  "printed ''Fetch failed'' (ui (snd (printTillCurrentFetch col status \<lparr>ui = [], stopperChan = ch\<rparr>)))
     = (\<exists>f. Fetch status = Some f \<and> ExitCode f \<noteq> 0
            \<and> Unix (StartedAt f) \<le> Unix (UpdatedAt f))"
  by (auto simp add: printTillCurrentFetch_def printLogLine_def printed_def split: option.splits)

lemma printTillCurrentDeploy_failed_iff:
  "printed ''Deploy failed'' (ui (snd (printTillCurrentDeploy col status \<lparr>ui = [], stopperChan = ch\<rparr>)))
     = (\<exists>d. Deploy status = Some d \<and> ExitCode d \<noteq> 0
            \<and> Unix (StartedAt d) < Unix (UpdatedAt d))"
  by (auto simp add: printTillCurrentDeploy_def printLogLine_def printed_def split: option.splits)

text \<open>
  C1.  A stage is to be reported failed when its \<open>ExitCode\<close> is non-zero and its
  \<open>UpdatedAt\<close> is not earlier than its \<open>StartedAt\<close>.  The fetch block of
  \<open>printTillCurrent\<close> tests \<open>UpdatedAt.Unix() >= StartedAt.Unix()\<close>; the deploy block tests
  \<open>StartedAt.Unix() < UpdatedAt.Unix()\<close>.  For a deploy with exit code 1 that started and
  was updated in the same second, \<open>printTillCurrent\<close> prints "Deploy started", returns
  no error, and never prints "Deploy failed".
\<close>

theorem printTillCurrent_quick_deploy_failure:
  "map_option ExitCode (Deploy quickDeployFailure) = Some 1
   \<and> map_option (Unix \<circ> StartedAt) (Deploy quickDeployFailure) = Some 100
   \<and> map_option (Unix \<circ> UpdatedAt) (Deploy quickDeployFailure) = Some 100
   \<and> printTillCurrent plainColor quickDeployFailure newWatcher =
       Inr ((noStage, None),
            \<lparr>ui = [BeginLinef ''Fetch succeeded'' (Some (seconds 95)),
                   BeginLinef ''Template succeeded'' (Some (seconds 96)),
                   BeginLinef ''Deploy started'' (Some (seconds 100))],
             stopperChan = ChanOpen\<rparr>)"
  by (simp add: tillCurrent_defs quickDeployFailure_def newWatcher_def)

text \<open>
  C8.  The block printed with a failure line is to be the \<open>Stderr\<close> of the stage that
  failed.  When \<open>printUpdate\<close> reports "Fetch failed", the block it prints is
  \<open>status.Template.Stderr\<close>: here the fetch failed with "vendir: fetch error", and the
  block shown is the template error left by the run before.
\<close>

theorem printUpdate_fetch_failed_prints_template_stderr:
  "map_option Stderr (Fetch fetchFailedAfter) = Some ''vendir: fetch error''
   \<and> map_option Stderr (Template fetchFailedAfter) = Some ''ytt: template error''
   \<and> printUpdate plainColor fetchFailedBefore fetchFailedAfter newWatcher =
       Inr \<lparr>ui = [BeginLinef ''Fetch failed'' None,
                  PrintBlock (indentMessageBlock plainColor ''ytt: template error'' True),
                  BeginLinef ''Fetch succeeded'' None],
            stopperChan = ChanClosed\<rparr>"
  by (simp add: update_defs fetchFailedBefore_def fetchFailedAfter_def newWatcher_def)


lemma printed_append [simp]: "printed m (xs @ ys) = (printed m xs \<or> printed m ys)"
  by (simp add: printed_def)

lemma printed_Nil [simp]: "printed m [] = False"
  by (simp add: printed_def)

lemma printed_Cons [simp]:
  "printed m (BeginLinef m' t # xs) = (m' = m \<or> printed m xs)"
  "printed m (PrintBlock b # xs) = printed m xs"
  by (simp_all add: printed_def)












subsection \<open>The flag gate\<close>

lemma checkFlags_None:
  "(checkFlags allowed tokens = None)
     = (\<forall>t\<in>set tokens. isFlag t \<longrightarrow> flagName t \<in> allowed)"
  by (induction tokens) (auto simp add: Includes_def)

lemma checkFlags_Some:
  "checkFlags allowed tokens = Some e \<Longrightarrow>
     \<exists>t\<in>set tokens. isFlag t \<and> flagName t \<notin> allowed \<and> e = UnexpectedFlag (flagName t)"
  by (induction tokens) (auto simp add: Includes_def split: if_splits)

lemma wait_allowed: "''--wait'' \<in> allowList OpDeploy"
  by (simp add: allowList_def kappAllowedDeployFlagSet_def NewFlagSet_def
      kappAllowedChangeOpts_def)

lemma danger_not_allowed: "''--danger-flag'' \<notin> allowList OpDeploy"
  by (simp add: allowList_def kappAllowedDeployFlagSet_def NewFlagSet_def
      kappAllowedChangeOpts_def kappAllowedSharedOpts_def)

text \<open>
  C3.  For every operation and every sequence of user-supplied strings: if some flag
  has a name outside the operation's allow-list, the invocation is rejected with an
  error naming such a flag and no argument list is produced; if every flag name is in
  the allow-list, the strings are handed on unchanged.  \<open>--wait\<close> is allowed for Deploy,
  so \<open>["--wait", "--danger-flag"]\<close> is rejected naming \<open>--danger-flag\<close> and \<open>["--wait"]\<close>
  is accepted as it is.
\<close>

theorem BuildInvocation_rejects_or_passes_through:
  "((\<exists>t\<in>set userSuppliedFlags. isFlag t \<and> flagName t \<notin> allowList operation)
      \<longrightarrow> (\<exists>t\<in>set userSuppliedFlags. isFlag t \<and> flagName t \<notin> allowList operation
             \<and> BuildInvocation operation userSuppliedFlags = Inl (UnexpectedFlag (flagName t))))
   \<and> ((\<forall>t\<in>set userSuppliedFlags. isFlag t \<longrightarrow> flagName t \<in> allowList operation)
      \<longrightarrow> BuildInvocation operation userSuppliedFlags = Inr userSuppliedFlags)
   \<and> ''--wait'' \<in> allowList OpDeploy
   \<and> BuildInvocation OpDeploy [''--wait'', ''--danger-flag''] = Inl (UnexpectedFlag ''--danger-flag'')
   \<and> BuildInvocation OpDeploy [''--wait''] = Inr [''--wait'']"
proof (intro conjI impI)
  assume bad: "\<exists>t\<in>set userSuppliedFlags. isFlag t \<and> flagName t \<notin> allowList operation"
  then have "checkFlags (allowList operation) userSuppliedFlags \<noteq> None"
    by (simp add: checkFlags_None)
  then obtain e where e: "checkFlags (allowList operation) userSuppliedFlags = Some e"
    by blast
  from checkFlags_Some [OF e] e
  show "\<exists>t\<in>set userSuppliedFlags. isFlag t \<and> flagName t \<notin> allowList operation
          \<and> BuildInvocation operation userSuppliedFlags = Inl (UnexpectedFlag (flagName t))"
    by (auto simp add: BuildInvocation_def)
next
  assume "\<forall>t\<in>set userSuppliedFlags. isFlag t \<longrightarrow> flagName t \<in> allowList operation"
  then have "checkFlags (allowList operation) userSuppliedFlags = None"
    by (simp add: checkFlags_None)
  then show "BuildInvocation operation userSuppliedFlags = Inr userSuppliedFlags"
    by (simp add: BuildInvocation_def)
next
  show "''--wait'' \<in> allowList OpDeploy" by (rule wait_allowed)
next
  show "BuildInvocation OpDeploy [''--wait'', ''--danger-flag''] = Inl (UnexpectedFlag ''--danger-flag'')"
    using wait_allowed danger_not_allowed
    by (simp add: BuildInvocation_def isFlag_def flagName_def Includes_def)
next
  show "BuildInvocation OpDeploy [''--wait''] = Inr [''--wait'']"
    using wait_allowed
    by (simp add: BuildInvocation_def isFlag_def flagName_def Includes_def)
qed

text \<open>
  A flag given as \<open>--wait=true\<close> is checked by the name \<open>--wait\<close>: rejected for Inspect,
  accepted for Delete together with a flag followed by its value token.
\<close>

theorem BuildInvocation_rejects_or_passes_through_witness:
  "BuildInvocation OpInspect [''--tree'', ''--wait=true'', ''--json'']
     = Inl (UnexpectedFlag ''--wait'')
   \<and> BuildInvocation OpDelete [''--wait=true'', ''--filter-kind'', ''Deployment'']
     = Inr [''--wait=true'', ''--filter-kind'', ''Deployment'']"
proof -
  have tree: "flagName ''--tree'' \<in> allowList OpInspect" and json: "flagName ''--json'' \<in> allowList OpInspect"
    and wait: "flagName ''--wait=true'' = ''--wait''" "''--wait'' \<notin> allowList OpInspect"
    by (simp_all add: flagName_def allowList_def kappAllowedInspectFlagSet_def NewFlagSet_def
        kappAllowedSharedOpts_def)
  have del: "''--wait'' \<in> allowList OpDelete" "flagName ''--filter-kind'' \<in> allowList OpDelete"
    "\<not> isFlag ''Deployment''"
    by (simp_all add: flagName_def isFlag_def allowList_def kappAllowedDeleteFlagSet_def NewFlagSet_def
        kappAllowedSharedOpts_def kappAllowedChangeOpts_def)
  have flags: "isFlag ''--wait=true''" by (simp add: isFlag_def)
  from BuildInvocation_rejects_or_passes_through
         [of "[''--tree'', ''--wait=true'', ''--json'']" OpInspect] tree json wait flags
  have "BuildInvocation OpInspect [''--tree'', ''--wait=true'', ''--json'']
          = Inl (UnexpectedFlag ''--wait'')"
    by auto
  moreover
  from BuildInvocation_rejects_or_passes_through
         [of "[''--wait=true'', ''--filter-kind'', ''Deployment'']" OpDelete] del wait(1)
  have "BuildInvocation OpDelete [''--wait=true'', ''--filter-kind'', ''Deployment'']
          = Inr [''--wait=true'', ''--filter-kind'', ''Deployment'']"
    by auto
  ultimately show ?thesis by simp
qed

text \<open>
  C4.  The Deploy allow-list is the union of the shared flags, the change flags and the
  deploy-specific flags; the Delete allow-list is the union of the shared and the change
  flags; the Inspect allow-list is the union of the shared flags and \<open>--raw\<close>, \<open>--status\<close>,
  \<open>--tree\<close>, and holds no change flag.  So \<open>--wait\<close> is allowed for Deploy and Delete and
  not for Inspect.  The sets are constants.
\<close>

theorem allow_lists_are_unions:
  "kappAllowedDeployFlagSet =
     set kappAllowedSharedOpts \<union> set kappAllowedChangeOpts
     \<union> {''--dangerous-allow-empty-list-of-resources'',
         ''--dangerous-override-ownership-of-existing-resources'',
         ''--into-ns'', ''--map-ns'', ''--logs'', ''--logs-all'',
         ''--app-changes-max-to-keep'', ''--labels'', ''--patch''}
   \<and> kappAllowedDeleteFlagSet = set kappAllowedSharedOpts \<union> set kappAllowedChangeOpts
   \<and> kappAllowedInspectFlagSet =
       set kappAllowedSharedOpts \<union> {''--raw'', ''--status'', ''--tree''}
   \<and> kappAllowedInspectFlagSet \<inter> set kappAllowedChangeOpts = {}
   \<and> Includes (allowList OpDeploy) ''--wait''
   \<and> Includes (allowList OpDelete) ''--wait''
   \<and> \<not> Includes (allowList OpInspect) ''--wait''"
proof (intro conjI)
  show "kappAllowedInspectFlagSet \<inter> set kappAllowedChangeOpts = {}"
    by (simp add: kappAllowedInspectFlagSet_def NewFlagSet_def kappAllowedSharedOpts_def
        kappAllowedChangeOpts_def)
qed (auto simp add: kappAllowedDeployFlagSet_def kappAllowedDeleteFlagSet_def
       kappAllowedInspectFlagSet_def NewFlagSet_def Includes_def allowList_def
       kappAllowedSharedOpts_def kappAllowedChangeOpts_def)

subsection \<open>The resource adapter\<close>

declare updateStatusLoop.simps [simp del]

lemma attemptOutcome_Suc:
  "attemptOutcome (Suc n) a = attemptOutcome n (snd (updateStatusOnce a))"
  by (simp add: attemptOutcome_def)

lemma attemptOutcome_0: "attemptOutcome 0 a = fst (updateStatusOnce a)"
  by (simp add: attemptOutcome_def)

lemma updateStatusLoop_success:
  "i < 5 \<Longrightarrow> updateStatusOnce a = (None, a') \<Longrightarrow> updateStatusLoop i lastErr a = (None, a')"
  by (subst updateStatusLoop.simps) simp

lemma updateStatusLoop_retry:
  "i < 5 \<Longrightarrow> updateStatusOnce a = (Some e, a') \<Longrightarrow>
     updateStatusLoop i lastErr a = updateStatusLoop (i + 1) (Some e) a'"
  by (subst updateStatusLoop.simps) simp

lemma updateStatusLoop_done: "\<not> i < 5 \<Longrightarrow> updateStatusLoop i lastErr a = (lastErr, a)"
  by (subst updateStatusLoop.simps) simp

lemma updateStatusLoop_attempts:
  "i + n = 5 \<Longrightarrow>
     (\<exists>k<n. (\<forall>j<k. attemptOutcome j a \<noteq> None) \<and> attemptOutcome k a = None
            \<and> updateStatusLoop i lastErr a = (None, afterAttempts (Suc k) a))
     \<or> ((\<forall>j<n. attemptOutcome j a \<noteq> None)
         \<and> updateStatusLoop i lastErr a
             = (if n = 0 then lastErr else attemptOutcome (n - 1) a, afterAttempts n a))"
proof (induction n arbitrary: i a lastErr)
  case 0
  then show ?case by (simp add: updateStatusLoop_done)
next
  case (Suc n)
  obtain r a' where once: "updateStatusOnce a = (r, a')" by (cases "updateStatusOnce a")
  have less: "i < 5" and next_i: "(i + 1) + n = 5" using Suc.prems by simp_all
  show ?case
  proof (cases r)
    case None
    then have "attemptOutcome 0 a = None"
      and "updateStatusLoop i lastErr a = (None, afterAttempts (Suc 0) a)"
      using once updateStatusLoop_success [OF less, of a a' lastErr]
      by (simp_all add: attemptOutcome_0)
    then show ?thesis by blast
  next
    case (Some e)
    then have loop: "updateStatusLoop i lastErr a = updateStatusLoop (i + 1) (Some e) a'"
      using once updateStatusLoop_retry [OF less, of a e a' lastErr] by simp
    have first: "attemptOutcome 0 a = Some e" using once Some by (simp add: attemptOutcome_0)
    have shift: "\<And>j. attemptOutcome (Suc j) a = attemptOutcome j a'"
      using once by (simp add: attemptOutcome_Suc)
    have shiftA: "\<And>j. afterAttempts (Suc j) a = afterAttempts j a'"
      using once by simp
    from Suc.IH [OF next_i, of a' "Some e"]
    show ?thesis
    proof
      assume "\<exists>k<n. (\<forall>j<k. attemptOutcome j a' \<noteq> None) \<and> attemptOutcome k a' = None
            \<and> updateStatusLoop (i + 1) (Some e) a' = (None, afterAttempts (Suc k) a')"
      then obtain k where k: "k < n" "\<forall>j<k. attemptOutcome j a' \<noteq> None"
        "attemptOutcome k a' = None"
        "updateStatusLoop (i + 1) (Some e) a' = (None, afterAttempts (Suc k) a')" by blast
      have "\<forall>j<Suc k. attemptOutcome j a \<noteq> None"
      proof (intro allI impI)
        fix j assume "j < Suc k"
        then show "attemptOutcome j a \<noteq> None"
          using first k(2) shift by (cases j) auto
      qed
      moreover have "attemptOutcome (Suc k) a = None" using k(3) shift by simp
      moreover have "updateStatusLoop i lastErr a = (None, afterAttempts (Suc (Suc k)) a)"
        using loop k(4) shiftA by simp
      ultimately show ?thesis using k(1) by (intro disjI1 exI [of _ "Suc k"]) simp
    next
      assume all: "(\<forall>j<n. attemptOutcome j a' \<noteq> None)
         \<and> updateStatusLoop (i + 1) (Some e) a'
             = (if n = 0 then Some e else attemptOutcome (n - 1) a', afterAttempts n a')"
      have "\<forall>j<Suc n. attemptOutcome j a \<noteq> None"
      proof (intro allI impI)
        fix j assume "j < Suc n"
        then show "attemptOutcome j a \<noteq> None"
          using first all shift by (cases j) auto
      qed
      moreover have "updateStatusLoop i lastErr a
             = (attemptOutcome n a, afterAttempts (Suc n) a)"
      proof (cases n)
        case 0
        then show ?thesis using loop all first shiftA by simp
      next
        case (Suc m)
        then show ?thesis using loop all shift [of m] shiftA by simp
      qed
      ultimately show ?thesis by simp
    qed
  qed
qed

text \<open>
  C5.  \<open>updateStatus\<close> makes at most five attempts of the fetch-modify-write cycle.  It
  returns \<open>nil\<close> as soon as an attempt succeeds, having made no attempt after that one
  (so after four failures and a success it succeeds on the fifth attempt); when all five
  attempts fail it returns the error of the fifth.
\<close>

theorem updateStatus_at_most_five_attempts:
  "(\<exists>k<5. (\<forall>j<k. attemptOutcome j a \<noteq> None) \<and> attemptOutcome k a = None
          \<and> updateStatus desc a = (None, afterAttempts (Suc k) a))
   \<or> ((\<forall>j<5. attemptOutcome j a \<noteq> None)
       \<and> updateStatus desc a = (attemptOutcome 4 a, afterAttempts 5 a))"
  using updateStatusLoop_attempts [of 0 5 a None] by (simp add: updateStatus_def)


lemmas client_defs =
  updateStatusOnce_def clientGet_def clientUpdateStatus_def clientUpdate_def clientWrite_def
  injected_def called_def lookup_def replace_def adapter_def storedRepo_def

lemma fourConflicts_outcomes:
  "attemptOutcome 0 fourConflicts = Some conflict"
  "attemptOutcome 1 fourConflicts = Some conflict"
  "attemptOutcome 2 fourConflicts = Some conflict"
  "attemptOutcome 3 fourConflicts = Some conflict"
  "attemptOutcome 4 fourConflicts = None"
  by (simp_all add: attemptOutcome_def eval_nat_numeral fourConflicts_def client_defs)

lemma fiveConflicts_outcomes:
  "attemptOutcome 0 fiveConflicts = Some conflict"
  "attemptOutcome 1 fiveConflicts = Some conflict"
  "attemptOutcome 2 fiveConflicts = Some conflict"
  "attemptOutcome 3 fiveConflicts = Some conflict"
  "attemptOutcome 4 fiveConflicts = Some conflict"
  by (simp_all add: attemptOutcome_def eval_nat_numeral fiveConflicts_def client_defs)

lemma less_five: "(k::nat) < 5 \<Longrightarrow> k = 0 \<or> k = 1 \<or> k = 2 \<or> k = 3 \<or> k = 4"
  by arith

text \<open>
  Four conflicts followed by a success: success on the fifth attempt.  Five conflicts:
  the conflict of the fifth attempt is returned.
\<close>

theorem updateStatus_at_most_five_attempts_witness:
  "updateStatus ''Reconcile failed'' fourConflicts = (None, afterAttempts 5 fourConflicts)
   \<and> updateStatus ''Reconcile failed'' fiveConflicts = (Some conflict, afterAttempts 5 fiveConflicts)"
proof
  from updateStatus_at_most_five_attempts [of fourConflicts "''Reconcile failed''"]
  show "updateStatus ''Reconcile failed'' fourConflicts = (None, afterAttempts 5 fourConflicts)"
  proof (elim disjE exE conjE)
    fix k :: nat
    assume "k < 5" and "attemptOutcome k fourConflicts = None"
      and r: "updateStatus ''Reconcile failed'' fourConflicts = (None, afterAttempts (Suc k) fourConflicts)"
    then have "k = 4" using fourConflicts_outcomes less_five [of k] by auto
    moreover have "Suc 4 = 5" by simp
    ultimately show ?thesis using r by simp
  next
    assume "\<forall>j<5. attemptOutcome j fourConflicts \<noteq> None"
    then have "attemptOutcome 4 fourConflicts \<noteq> None" by simp
    then show ?thesis using fourConflicts_outcomes(5) by simp
  qed
next
  from updateStatus_at_most_five_attempts [of fiveConflicts "''Reconcile failed''"]
  show "updateStatus ''Reconcile failed'' fiveConflicts = (Some conflict, afterAttempts 5 fiveConflicts)"
  proof (elim disjE exE conjE)
    fix k :: nat
    assume "k < 5" and "attemptOutcome k fiveConflicts = None"
    then show ?thesis using fiveConflicts_outcomes less_five [of k] by auto
  next
    assume "updateStatus ''Reconcile failed'' fiveConflicts
              = (attemptOutcome 4 fiveConflicts, afterAttempts 5 fiveConflicts)"
    then show ?thesis using fiveConflicts_outcomes(5) by simp
  qed
qed

lemma containsString_set [simp]: "containsString slice s = (s \<in> set slice)"
  by (induction slice) auto

lemma removeString_filter [simp]: "removeString slice s = filter (\<lambda>x. x \<noteq> s) slice"
  by (induction slice) auto

lemma lookup_key: "lookup ns name objs = Some r \<Longrightarrow> Namespace r = ns \<and> Name r = name"
  by (induction objs) (auto simp add: lookup_def split: if_splits)

lemma lookup_replace:
  "lookup (Namespace r) (Name r) objs = Some x \<Longrightarrow>
     lookup (Namespace r) (Name r) (replace r objs) = Some r"
  by (induction objs) (auto simp add: lookup_def replace_def split: if_splits)

lemma updatePackageRepository_success:
  assumes ok: "updatePackageRepository updateFunc a = (None, a')"
    and keeps: "\<And>r. Namespace (updateFunc r) = Namespace r \<and> Name (updateFunc r) = Name r"
  shows "\<exists>r. lookup (Namespace (pkgrModel a)) (Name (pkgrModel a)) (objects (appClient a)) = Some r
            \<and> lookup (Namespace (pkgrModel a)) (Name (pkgrModel a)) (objects (appClient a'))
                = Some (updateFunc r)
            \<and> pkgrModel a' = pkgrModel a"
proof -
  let ?ns = "Namespace (pkgrModel a)" and ?name = "Name (pkgrModel a)"
  from ok obtain r c where get: "clientGet ?ns ?name (appClient a) = (Inr r, c)"
    by (auto simp add: updatePackageRepository_def split: prod.splits sum.splits)
  then have found: "lookup ?ns ?name (objects (appClient a)) = Some r"
    and c: "objects c = objects (appClient a)"
    by (auto simp add: clientGet_def called_def split: option.splits)
  from lookup_key [OF found] have key: "Namespace r = ?ns" "Name r = ?name" by simp_all
  from ok get obtain r' c' where upd: "clientUpdate (Namespace r) (updateFunc r) c = (Inr r', c')"
    and a': "a' = a\<lparr>appClient := c'\<rparr>"
    by (auto simp add: updatePackageRepository_def split: prod.splits sum.splits)
  from upd have "objects c' = replace (updateFunc r) (objects c)"
    by (auto simp add: clientUpdate_def clientWrite_def called_def split: option.splits if_splits)
  moreover have "lookup (Namespace (updateFunc r)) (Name (updateFunc r)) (replace (updateFunc r) (objects c))
                   = Some (updateFunc r)"
    using found c key keeps [of r] by (intro lookup_replace [of _ _ r]) simp
  ultimately have "lookup ?ns ?name (objects c') = Some (updateFunc r)"
    using key keeps [of r] by simp
  then show ?thesis using found a' by simp
qed

lemma updatePackageRepository_no_faults:
  assumes "lookup (Namespace (pkgrModel a)) (Name (pkgrModel a)) (objects (appClient a)) \<noteq> None"
    and "faults (appClient a) = []"
    and keeps: "\<And>r. Namespace (updateFunc r) = Namespace r \<and> Name (updateFunc r) = Name r"
  shows "fst (updatePackageRepository updateFunc a) = None
         \<and> faults (appClient (snd (updatePackageRepository updateFunc a))) = []"
proof -
  let ?ns = "Namespace (pkgrModel a)" and ?name = "Name (pkgrModel a)"
  from assms(1) obtain r where found: "lookup ?ns ?name (objects (appClient a)) = Some r" by blast
  from lookup_key [OF found] have key: "Namespace r = ?ns" "Name r = ?name" by simp_all
  show ?thesis
    using found assms(2) key keeps [of r]
    by (simp add: updatePackageRepository_def clientGet_def clientUpdate_def clientWrite_def
        injected_def called_def)
qed

text \<open>
  C7.  Whatever the stored finalizer list holds (the current name, the previous name,
  both or neither, any number of times), after a successful \<open>unblockDeletion\<close> the stored
  list is the old one without the entries equal to either name: neither name occurs in
  it, and the other entries are kept, in their order.  With the resource stored and no
  fault injected the call succeeds.
\<close>

theorem unblockDeletion_removes_both_names:
  "(unblockDeletion deleteFinalizerName deletePrevFinalizerName a = (None, a') \<longrightarrow>
      (\<exists>before after.
          storedFinalizers a = Some before \<and> storedFinalizers a' = Some after
          \<and> deleteFinalizerName \<notin> set after \<and> deletePrevFinalizerName \<notin> set after
          \<and> after = filter (\<lambda>x. x \<noteq> deleteFinalizerName \<and> x \<noteq> deletePrevFinalizerName) before))
   \<and> (storedFinalizers a \<noteq> None \<and> faults (appClient a) = [] \<longrightarrow>
        fst (unblockDeletion deleteFinalizerName deletePrevFinalizerName a) = None)"
proof (intro conjI impI)
  let ?upd = "\<lambda>app. (let app1 = app\<lparr>Finalizers := removeString (Finalizers app) deleteFinalizerName\<rparr>
               in app1\<lparr>Finalizers := removeString (Finalizers app1) deletePrevFinalizerName\<rparr>)"
  have keeps: "\<And>r. Namespace (?upd r) = Namespace r \<and> Name (?upd r) = Name r"
    by (simp add: Let_def)
  {
    assume "unblockDeletion deleteFinalizerName deletePrevFinalizerName a = (None, a')"
    then have "updatePackageRepository ?upd a = (None, a')"
      by (simp add: unblockDeletion_def)
    from updatePackageRepository_success [OF this keeps]
    show "\<exists>before after.
          storedFinalizers a = Some before \<and> storedFinalizers a' = Some after
          \<and> deleteFinalizerName \<notin> set after \<and> deletePrevFinalizerName \<notin> set after
          \<and> after = filter (\<lambda>x. x \<noteq> deleteFinalizerName \<and> x \<noteq> deletePrevFinalizerName) before"
      by (auto simp add: storedFinalizers_def Let_def)
  }
  {
    assume "storedFinalizers a \<noteq> None \<and> faults (appClient a) = []"
    then have "lookup (Namespace (pkgrModel a)) (Name (pkgrModel a)) (objects (appClient a)) \<noteq> None"
      and "faults (appClient a) = []"
      by (simp_all add: storedFinalizers_def)
    from updatePackageRepository_no_faults [OF this keeps]
    show "fst (unblockDeletion deleteFinalizerName deletePrevFinalizerName a) = None"
      by (simp add: unblockDeletion_def)
  }
qed

text \<open>
  A list with both names, the current one twice, and two unrelated finalizers.
\<close>

theorem unblockDeletion_removes_both_names_witness:
  "fst (unblockDeletion currentFinalizer previousFinalizer
          (adapter [''kapp.k14s.io/cleanup'', previousFinalizer, currentFinalizer,
                    ''example.com/keep'', currentFinalizer] [])) = None
   \<and> storedFinalizers (snd (unblockDeletion currentFinalizer previousFinalizer
          (adapter [''kapp.k14s.io/cleanup'', previousFinalizer, currentFinalizer,
                    ''example.com/keep'', currentFinalizer] [])))
       = Some [''kapp.k14s.io/cleanup'', ''example.com/keep'']"
proof -
  let ?a = "adapter [''kapp.k14s.io/cleanup'', previousFinalizer, currentFinalizer,
                    ''example.com/keep'', currentFinalizer] []"
  let ?r = "unblockDeletion currentFinalizer previousFinalizer ?a"
  have stored: "storedFinalizers ?a = Some [''kapp.k14s.io/cleanup'', previousFinalizer, currentFinalizer,
                    ''example.com/keep'', currentFinalizer]"
    and quiet: "faults (appClient ?a) = []"
    by (simp_all add: storedFinalizers_def adapter_def storedRepo_def lookup_def)
  from unblockDeletion_removes_both_names [of currentFinalizer previousFinalizer ?a "snd ?r"]
    stored quiet
  have ok: "fst ?r = None" by simp
  then have "?r = (None, snd ?r)" by (cases ?r) simp
  with unblockDeletion_removes_both_names [of currentFinalizer previousFinalizer ?a "snd ?r"] stored
  have "storedFinalizers (snd ?r)
          = Some (filter (\<lambda>x. x \<noteq> currentFinalizer \<and> x \<noteq> previousFinalizer)
                    [''kapp.k14s.io/cleanup'', previousFinalizer, currentFinalizer,
                    ''example.com/keep'', currentFinalizer])"
    by auto
  then show ?thesis using ok by (simp add: currentFinalizer_def previousFinalizer_def)
qed


text \<open>
  A resource that already carries the finalizer name twice keeps both copies through
  two calls of \<open>blockDeletion\<close>: nothing is read or written, and the count stays at two.
\<close>

theorem blockDeletion_keeps_duplicates_counterexample:
  "fst (blockDeletion currentFinalizer duplicatedFinalizer) = None
   \<and> fst (blockDeletion currentFinalizer
            (snd (blockDeletion currentFinalizer duplicatedFinalizer))) = None
   \<and> Finalizers (pkgrModel (snd (blockDeletion currentFinalizer
            (snd (blockDeletion currentFinalizer duplicatedFinalizer)))))
       = [currentFinalizer, currentFinalizer]
   \<and> storedFinalizers (snd (blockDeletion currentFinalizer
            (snd (blockDeletion currentFinalizer duplicatedFinalizer))))
       = Some [currentFinalizer, currentFinalizer]"
  by (simp add: blockDeletion_def duplicatedFinalizer_def adapter_def storedRepo_def
      storedFinalizers_def lookup_def)

lemma blockDeletion_write:
  assumes "\<not> containsString (Finalizers (pkgrModel a)) deleteFinalizerName"
    and "blockDeletion deleteFinalizerName a = (None, a')"
  shows "\<exists>before. storedFinalizers a = Some before
           \<and> storedFinalizers a'
               = Some (if deleteFinalizerName \<in> set before then before
                       else before @ [deleteFinalizerName])
           \<and> pkgrModel a' = pkgrModel a"
proof -
  let ?upd = "\<lambda>app. if \<not> containsString (Finalizers app) deleteFinalizerName
                    then app\<lparr>Finalizers := Finalizers app @ [deleteFinalizerName]\<rparr>
                    else app"
  have keeps: "\<And>r. Namespace (?upd r) = Namespace r \<and> Name (?upd r) = Name r"
    by simp
  from assms have "updatePackageRepository ?upd a = (None, a')"
    by (simp add: blockDeletion_def)
  from updatePackageRepository_success [OF this keeps]
  show ?thesis by (auto simp add: storedFinalizers_def)
qed

text \<open>
  C6 (as amended).  When the finalizer name is already in the adapter's copy of the
  resource, \<open>blockDeletion\<close> returns success and leaves the adapter and the client as they
  were: no call is made.  Otherwise two successful calls in a row leave the stored list
  as the first call wrote it: the old list with the name appended if it was absent, and
  unchanged if it was present.  The name then occurs \<open>max 1 n\<close> times, where \<open>n\<close> is the
  number of its occurrences at the start: exactly once when the list held it at most
  once.  With the resource stored and no fault injected both calls succeed.
\<close>

theorem blockDeletion_adds_at_most_once:
  "(containsString (Finalizers (pkgrModel a)) deleteFinalizerName \<longrightarrow>
      blockDeletion deleteFinalizerName a = (None, a))
   \<and> (\<not> containsString (Finalizers (pkgrModel a)) deleteFinalizerName
       \<and> blockDeletion deleteFinalizerName a = (None, a1)
       \<and> blockDeletion deleteFinalizerName a1 = (None, a2) \<longrightarrow>
        (\<exists>before after.
            storedFinalizers a = Some before \<and> storedFinalizers a2 = Some after
            \<and> after = (if deleteFinalizerName \<in> set before then before
                        else before @ [deleteFinalizerName])
            \<and> count_list after deleteFinalizerName
                = max 1 (count_list before deleteFinalizerName)))
   \<and> (storedFinalizers a \<noteq> None \<and> faults (appClient a) = [] \<longrightarrow>
        fst (blockDeletion deleteFinalizerName a) = None
        \<and> fst (blockDeletion deleteFinalizerName (snd (blockDeletion deleteFinalizerName a))) = None)"
proof -
  have present: "containsString (Finalizers (pkgrModel a)) deleteFinalizerName \<longrightarrow>
      blockDeletion deleteFinalizerName a = (None, a)"
    by (simp add: blockDeletion_def)
  have twice: "\<not> containsString (Finalizers (pkgrModel a)) deleteFinalizerName
       \<and> blockDeletion deleteFinalizerName a = (None, a1)
       \<and> blockDeletion deleteFinalizerName a1 = (None, a2) \<longrightarrow>
        (\<exists>before after.
            storedFinalizers a = Some before \<and> storedFinalizers a2 = Some after
            \<and> after = (if deleteFinalizerName \<in> set before then before
                        else before @ [deleteFinalizerName])
            \<and> count_list after deleteFinalizerName
                = max 1 (count_list before deleteFinalizerName))"
  proof (intro impI)
    assume h: "\<not> containsString (Finalizers (pkgrModel a)) deleteFinalizerName
         \<and> blockDeletion deleteFinalizerName a = (None, a1)
         \<and> blockDeletion deleteFinalizerName a1 = (None, a2)"
    then obtain before where first: "storedFinalizers a = Some before"
      "storedFinalizers a1 = Some (if deleteFinalizerName \<in> set before then before
                         else before @ [deleteFinalizerName])"
      "pkgrModel a1 = pkgrModel a"
      using blockDeletion_write [of a deleteFinalizerName a1] by blast
    let ?mid = "if deleteFinalizerName \<in> set before then before else before @ [deleteFinalizerName]"
    from h first(3) have "\<not> containsString (Finalizers (pkgrModel a1)) deleteFinalizerName" by simp
    from blockDeletion_write [OF this] h first(2)
    have second: "storedFinalizers a2 = Some ?mid" by auto
    have "count_list ?mid deleteFinalizerName = max 1 (count_list before deleteFinalizerName)"
    proof (cases "deleteFinalizerName \<in> set before")
      case True
      then have "count_list before deleteFinalizerName \<noteq> 0" by (simp add: count_list_0_iff)
      then show ?thesis using True by simp
    next
      case False
      then show ?thesis by (simp add: count_list_0_iff)
    qed
    with first(1) second
    show "\<exists>before after.
              storedFinalizers a = Some before \<and> storedFinalizers a2 = Some after
              \<and> after = (if deleteFinalizerName \<in> set before then before
                          else before @ [deleteFinalizerName])
              \<and> count_list after deleteFinalizerName
                  = max 1 (count_list before deleteFinalizerName)"
      by simp
  qed
  have succeeds: "storedFinalizers a \<noteq> None \<and> faults (appClient a) = [] \<longrightarrow>
        fst (blockDeletion deleteFinalizerName a) = None
        \<and> fst (blockDeletion deleteFinalizerName (snd (blockDeletion deleteFinalizerName a))) = None"
  proof (intro impI)
    let ?upd = "\<lambda>app. if \<not> containsString (Finalizers app) deleteFinalizerName
                      then app\<lparr>Finalizers := Finalizers app @ [deleteFinalizerName]\<rparr>
                      else app"
    have keeps: "\<And>r. Namespace (?upd r) = Namespace r \<and> Name (?upd r) = Name r"
      by simp
    assume "storedFinalizers a \<noteq> None \<and> faults (appClient a) = []"
    then have found: "lookup (Namespace (pkgrModel a)) (Name (pkgrModel a)) (objects (appClient a)) \<noteq> None"
      and quiet: "faults (appClient a) = []"
      by (simp_all add: storedFinalizers_def)
    show "fst (blockDeletion deleteFinalizerName a) = None
          \<and> fst (blockDeletion deleteFinalizerName (snd (blockDeletion deleteFinalizerName a))) = None"
    proof (cases "containsString (Finalizers (pkgrModel a)) deleteFinalizerName")
      case True
      then show ?thesis by (simp add: blockDeletion_def)
    next
      case False
      let ?r = "updatePackageRepository ?upd a"
      from updatePackageRepository_no_faults [OF found quiet keeps]
      have one: "fst ?r = None" "faults (appClient (snd ?r)) = []" by simp_all
      then have "?r = (None, snd ?r)" by (cases ?r) simp
      from updatePackageRepository_success [OF this keeps]
      have model: "pkgrModel (snd ?r) = pkgrModel a"
        and found': "lookup (Namespace (pkgrModel (snd ?r))) (Name (pkgrModel (snd ?r)))
                       (objects (appClient (snd ?r))) \<noteq> None"
        by auto
      from updatePackageRepository_no_faults [OF found' one(2) keeps]
      have "fst (updatePackageRepository ?upd (snd ?r)) = None" by simp
      then show ?thesis using False one(1) model by (simp add: blockDeletion_def)
    qed
  qed
  show ?thesis by (rule conjI [OF present conjI [OF twice succeeds]])
qed

text \<open>
  From an empty list, two calls leave exactly one copy; with the name in place, the call
  changes nothing.
\<close>

theorem blockDeletion_adds_at_most_once_witness:
  "fst (blockDeletion currentFinalizer (adapter [] [])) = None
   \<and> storedFinalizers (snd (blockDeletion currentFinalizer
          (snd (blockDeletion currentFinalizer (adapter [] []))))) = Some [currentFinalizer]
   \<and> blockDeletion currentFinalizer (adapter [currentFinalizer] [])
       = (None, adapter [currentFinalizer] [])"
proof -
  let ?a = "adapter [] []"
  let ?r1 = "blockDeletion currentFinalizer ?a"
  let ?r2 = "blockDeletion currentFinalizer (snd ?r1)"
  have absent: "\<not> containsString (Finalizers (pkgrModel ?a)) currentFinalizer"
    and stored: "storedFinalizers ?a = Some []" and quiet: "faults (appClient ?a) = []"
    by (simp_all add: adapter_def storedRepo_def storedFinalizers_def lookup_def)
  from blockDeletion_adds_at_most_once [of ?a currentFinalizer "snd ?r1" "snd ?r2"] stored quiet
  have ok: "fst ?r1 = None" "fst ?r2 = None" by simp_all
  then have "?r1 = (None, snd ?r1)" "?r2 = (None, snd ?r2)"
    by (simp_all add: prod_eq_iff)
  with blockDeletion_adds_at_most_once [of ?a currentFinalizer "snd ?r1" "snd ?r2"] absent stored
  have "storedFinalizers (snd ?r2) = Some [currentFinalizer]" by auto
  moreover
  have "containsString (Finalizers (pkgrModel (adapter [currentFinalizer] []))) currentFinalizer"
    by (simp add: adapter_def storedRepo_def)
  with blockDeletion_adds_at_most_once [of "adapter [currentFinalizer] []" currentFinalizer]
  have "blockDeletion currentFinalizer (adapter [currentFinalizer] [])
          = (None, adapter [currentFinalizer] [])" by blast
  ultimately show ?thesis using ok by simp
qed

subsection \<open>The reconcile counters\<close>

lemma reconcileCompleted_one_nonzero:
  assumes "0 \<le> ConsecutiveReconcileSuccesses status" and "0 \<le> ConsecutiveReconcileFailures status"
  shows "0 \<le> ConsecutiveReconcileSuccesses (reconcileCompleted outcome status)
         \<and> 0 \<le> ConsecutiveReconcileFailures (reconcileCompleted outcome status)
         \<and> ((ConsecutiveReconcileSuccesses (reconcileCompleted outcome status) \<noteq> 0)
              \<noteq> (ConsecutiveReconcileFailures (reconcileCompleted outcome status) \<noteq> 0))"
  using assms by (cases outcome) (auto simp add: reconcileCompleted_def)

lemma afterOutcomes_one_nonzero:
  assumes "0 \<le> ConsecutiveReconcileSuccesses status" and "0 \<le> ConsecutiveReconcileFailures status"
    and "(ConsecutiveReconcileSuccesses status \<noteq> 0) \<noteq> (ConsecutiveReconcileFailures status \<noteq> 0)"
  shows "0 \<le> ConsecutiveReconcileSuccesses (afterOutcomes outcomes status)
         \<and> 0 \<le> ConsecutiveReconcileFailures (afterOutcomes outcomes status)
         \<and> ((ConsecutiveReconcileSuccesses (afterOutcomes outcomes status) \<noteq> 0)
              \<noteq> (ConsecutiveReconcileFailures (afterOutcomes outcomes status) \<noteq> 0))"
  using assms
proof (induction outcomes arbitrary: status)
  case Nil
  then show ?case by simp
next
  case (Cons outcome rest)
  from reconcileCompleted_one_nonzero [OF Cons.prems(1,2), of outcome]
  show ?case using Cons.IH [of "reconcileCompleted outcome status"] by simp
qed

text \<open>
  A resource that has not completed a reconcile has both counters at zero, the case for
  which \<open>metricString\<close> prints both counts.
\<close>

theorem counters_both_zero_before_first_reconcile_counterexample:
  "afterOutcomes [] emptyStatus = emptyStatus
   \<and> ConsecutiveReconcileSuccesses emptyStatus = 0
   \<and> ConsecutiveReconcileFailures emptyStatus = 0
   \<and> \<not> ((ConsecutiveReconcileSuccesses emptyStatus \<noteq> 0)
          \<noteq> (ConsecutiveReconcileFailures emptyStatus \<noteq> 0))
   \<and> metricString emptyStatus = ''0 consecutive failures | 0 consecutive successes''"
  by (simp add: emptyStatus_def metricString_def)

text \<open>
  C9 (as amended).  After every sequence of reconcile outcomes, starting from the empty
  status, the two counters are non-negative and never both non-zero.  After at least one
  outcome exactly one of them is non-zero; before the first outcome both are zero.
\<close>

theorem counters_exclusive_after_first_reconcile:
  "\<not> (ConsecutiveReconcileSuccesses (afterOutcomes outcomes emptyStatus) \<noteq> 0
      \<and> ConsecutiveReconcileFailures (afterOutcomes outcomes emptyStatus) \<noteq> 0)
   \<and> 0 \<le> ConsecutiveReconcileSuccesses (afterOutcomes outcomes emptyStatus)
   \<and> 0 \<le> ConsecutiveReconcileFailures (afterOutcomes outcomes emptyStatus)
   \<and> (outcomes \<noteq> [] \<longrightarrow>
        ((ConsecutiveReconcileSuccesses (afterOutcomes outcomes emptyStatus) \<noteq> 0)
          \<noteq> (ConsecutiveReconcileFailures (afterOutcomes outcomes emptyStatus) \<noteq> 0)))
   \<and> (outcomes = [] \<longrightarrow>
        ConsecutiveReconcileSuccesses (afterOutcomes outcomes emptyStatus) = 0
        \<and> ConsecutiveReconcileFailures (afterOutcomes outcomes emptyStatus) = 0)"
proof (cases outcomes)
  case Nil
  then show ?thesis by (simp add: emptyStatus_def)
next
  case (Cons outcome rest)
  have "0 \<le> ConsecutiveReconcileSuccesses emptyStatus" "0 \<le> ConsecutiveReconcileFailures emptyStatus"
    by (simp_all add: emptyStatus_def)
  from reconcileCompleted_one_nonzero [OF this, of outcome]
  have "0 \<le> ConsecutiveReconcileSuccesses (afterOutcomes rest (reconcileCompleted outcome emptyStatus))
         \<and> 0 \<le> ConsecutiveReconcileFailures (afterOutcomes rest (reconcileCompleted outcome emptyStatus))
         \<and> ((ConsecutiveReconcileSuccesses (afterOutcomes rest (reconcileCompleted outcome emptyStatus)) \<noteq> 0)
              \<noteq> (ConsecutiveReconcileFailures (afterOutcomes rest (reconcileCompleted outcome emptyStatus)) \<noteq> 0))"
    by (intro afterOutcomes_one_nonzero) simp_all
  then show ?thesis using Cons by auto
qed

text \<open>A failure followed by two successes: two successes in a row, no failure.\<close>

theorem counters_exclusive_after_first_reconcile_witness:
  "ConsecutiveReconcileSuccesses
     (afterOutcomes [ReconcileFailure, ReconcileSuccess, ReconcileSuccess] emptyStatus) = 2
   \<and> ConsecutiveReconcileFailures
     (afterOutcomes [ReconcileFailure, ReconcileSuccess, ReconcileSuccess] emptyStatus) = 0
   \<and> ((ConsecutiveReconcileSuccesses
         (afterOutcomes [ReconcileFailure, ReconcileSuccess, ReconcileSuccess] emptyStatus) \<noteq> 0)
       \<noteq> (ConsecutiveReconcileFailures
         (afterOutcomes [ReconcileFailure, ReconcileSuccess, ReconcileSuccess] emptyStatus) \<noteq> 0))"
  using counters_exclusive_after_first_reconcile
          [of "[ReconcileFailure, ReconcileSuccess, ReconcileSuccess]"]
  by (simp add: emptyStatus_def reconcileCompleted_def)

end
